theory Spec2Isabelle
  imports Main "HOL-Library.AList" "HOL-Library.Char_ord" "HOL-Library.List_Lexorder"
begin

section \<open>The syntax-tree node of lib/js/Node.py\<close>

text \<open>
  \<open>Node\<close> is a Python 2 class (it uses \<open>long\<close>, \<open>unicode\<close>, \<open>basestring\<close> and
  \<open>__nonzero__\<close>) that subclasses \<open>list\<close>: a node is at once the mutable sequence of
  its children and an object whose attributes are set dynamically. Nodes are shared by
  reference (\<open>kid.parent = self\<close>, \<open>setattr(self, rel, kid)\<close>), so the embedding keeps
  an explicit heap: a node reference is an address, and every method takes the heap and
  returns the heap it leaves behind, also when it raises.
\<close>

subsection \<open>Values\<close>

text \<open>
  The tokenizer is an external collaborator; the class reads \<open>token\<close>, \<open>line\<close>,
  \<open>source\<close> and \<open>filename\<close> from it, and \<open>type\<close>, \<open>line\<close>, \<open>start\<close> and \<open>end\<close>
  from its current token (\<open>getattr(token, "type", None)\<close>: the type may be missing).
\<close>

record token =
  tk_type :: "string option"
  tk_line :: int
  tk_start :: int
  tk_end :: int

record tokenizer =
  tz_token :: "token option"
  tz_line :: int
  tz_source :: string
  tz_filename :: string

text \<open>
  The Python values the class handles: \<open>None\<close>, booleans, integers (\<open>int\<close> and
  \<open>long\<close>, unbounded), text, plain lists, references to \<open>Node\<close> objects, tokenizer
  objects and comment records (\<open>style\<close>, \<open>mode\<close>, \<open>text\<close>). Text is a sequence of
  characters with code points below 256. Floats are not part of the model.
\<close>

datatype pyval =
    VNone
  | VBool bool
  | VInt int
  | VStr string
  | VList "pyval list"
  | VRef nat
  | VTok tokenizer
  | VComment string string string

text \<open>
  Every \<open>raise\<close> of the class and every exception of the built-ins it calls is a value.
  \<open>InvalidKid\<close> is \<open>Exception("Invalid kid: %s" % kid)\<close>, \<open>InvalidAttrListChild\<close> is
  \<open>Exception("Invalid attribute list child at: %s" % name)\<close>, \<open>IrritatedNonRelated\<close>
  is \<open>Exception("Oops, irritated by non related: ...")\<close>. \<open>RecursionLimit\<close> is the
  interpreter's \<open>RuntimeError\<close> when the recursion depth is used up. \<open>Unmodelled\<close>
  marks an operation whose result depends on interpreter internals that the model does
  not cover (the ordering of values of unrelated types, the identity of tokenizer and
  comment objects, mutation of a plain list that is shared).
\<close>

datatype error =
    AttributeError string
  | NameError string
  | ValueError
  | IndexError
  | TypeError
  | InvalidKid pyval
  | InvalidAttrListChild string
  | IrritatedNonRelated pyval pyval pyval
  | RecursionLimit
  | Unmodelled

subsection \<open>Objects and the heap\<close>

text \<open>
  A \<open>Node\<close> object: the list part (\<open>items\<close>) and the instance dictionary
  (\<open>attrs\<close>, an association list with one entry per name). Only \<open>Node\<close> objects live in
  the heap, so \<open>isinstance(v, Node)\<close> holds exactly for the values \<open>VRef r\<close>. The methods
  and special attributes that every instance inherits from the class are not entries of
  \<open>attrs\<close>; attribute names that collide with them are outside the model.
\<close>

record obj =
  items :: "pyval list"
  attrs :: "(string \<times> pyval) list"

type_synonym heap = "nat \<Rightarrow> obj"

definition new_obj :: obj where
  "new_obj = \<lparr>items = [], attrs = []\<rparr>"

definition empty_heap :: heap where
  "empty_heap = (\<lambda>r. new_obj)"

definition set_attr :: "heap \<Rightarrow> nat \<Rightarrow> string \<Rightarrow> pyval \<Rightarrow> heap" where
  "set_attr h r name v = h(r := (h r)\<lparr>attrs := AList.update name v (attrs (h r))\<rparr>)"

text \<open>\<open>v.name\<close>: only nodes carry the attributes the class reads this way.\<close>

fun get_attr :: "heap \<Rightarrow> pyval \<Rightarrow> string \<Rightarrow> error + pyval" where
  "get_attr h (VRef r) name =
     (case map_of (attrs (h r)) name of
        None \<Rightarrow> Inl (AttributeError name)
      | Some v \<Rightarrow> Inr v)"
| "get_attr h v name = Inl (AttributeError name)"

fun hasattr :: "heap \<Rightarrow> pyval \<Rightarrow> string \<Rightarrow> bool" where
  "hasattr h (VRef r) name = (map_of (attrs (h r)) name \<noteq> None)"
| "hasattr h v name = False"

text \<open>\<open>list.append(self, kid)\<close> extends the list in place and returns \<open>None\<close>.\<close>

definition list_append :: "heap \<Rightarrow> nat \<Rightarrow> pyval \<Rightarrow> pyval \<times> heap" where
  "list_append h self kid = (VNone, h(self := (h self)\<lparr>items := items (h self) @ [kid]\<rparr>))"

subsection \<open>Truth values and comparisons\<close>

text \<open>\<open>Node.__nonzero__\<close> (lines 224-225).\<close>

definition Node_nonzero :: "obj \<Rightarrow> bool" where
  "Node_nonzero self = True"

text \<open>
  \<open>bool(v)\<close> of Python 2: a node answers through \<open>__nonzero__\<close>; tokenizer and comment
  objects are plain objects and count as true.
\<close>

fun truthy :: "heap \<Rightarrow> pyval \<Rightarrow> bool" where
  "truthy h VNone = False"
| "truthy h (VBool b) = b"
| "truthy h (VInt i) = (i \<noteq> 0)"
| "truthy h (VStr s) = (s \<noteq> [])"
| "truthy h (VList xs) = (xs \<noteq> [])"
| "truthy h (VRef r) = Node_nonzero (h r)"
| "truthy h (VTok t) = True"
| "truthy h (VComment s m t) = True"

fun as_num :: "pyval \<Rightarrow> int option" where
  "as_num (VInt i) = Some i"
| "as_num (VBool b) = Some (if b then 1 else 0)"
| "as_num v = None"

text \<open>
  \<open>a < b\<close> of Python 2: \<open>None\<close> is smaller than every other value and not smaller than
  itself; numbers compare by value; text compares lexicographically.
\<close>

definition py_lt :: "pyval \<Rightarrow> pyval \<Rightarrow> error + bool" where
  "py_lt a b =
     (if b = VNone then Inr False
      else if a = VNone then Inr True
      else case (as_num a, as_num b) of
          (Some i, Some j) \<Rightarrow> Inr (i < j)
        | _ \<Rightarrow> (case (a, b) of
                  (VStr s, VStr t) \<Rightarrow> Inr (s < t)
                | _ \<Rightarrow> Inl Unmodelled))"

subsection \<open>\<open>append\<close> (lines 67-92)\<close>

text \<open>
  The body of \<open>if hasattr(kid, "tokenizer")\<close>: both comparisons read the attributes of
  \<open>kid\<close> and \<open>self\<close> (left operand first) and fail when one is missing.
\<close>

definition expand_span :: "heap \<Rightarrow> nat \<Rightarrow> nat \<Rightarrow> error option \<times> heap" where
  "expand_span h self k =
     (case get_attr h (VRef k) ''start'' of Inl e \<Rightarrow> (Some e, h) | Inr ks \<Rightarrow>
      case get_attr h (VRef self) ''start'' of Inl e \<Rightarrow> (Some e, h) | Inr ss \<Rightarrow>
      case py_lt ks ss of Inl e \<Rightarrow> (Some e, h) | Inr b \<Rightarrow>
      let h1 = (if b then set_attr h self ''start'' ks else h) in
      case get_attr h1 (VRef self) ''end'' of Inl e \<Rightarrow> (Some e, h1) | Inr se \<Rightarrow>
      case get_attr h1 (VRef k) ''end'' of Inl e \<Rightarrow> (Some e, h1) | Inr ke \<Rightarrow>
      case py_lt se ke of Inl e \<Rightarrow> (Some e, h1) | Inr b2 \<Rightarrow>
      (None, if b2 then set_attr h1 self ''end'' ke else h1))"

text \<open>
  The body of \<open>if kid:\<close>. \<open>setattr(self, rel, kid)\<close> needs a text name and raises
  \<open>TypeError\<close> otherwise.
\<close>

definition attach :: "heap \<Rightarrow> nat \<Rightarrow> pyval \<Rightarrow> pyval \<Rightarrow> error option \<times> heap" where
  "attach h self kid rel =
     (case kid of
        VRef k \<Rightarrow>
          (case (if hasattr h kid ''tokenizer'' then expand_span h self k else (None, h)) of
             (Some e, h1) \<Rightarrow> (Some e, h1)
           | (None, h1) \<Rightarrow>
               let h2 = set_attr h1 k ''parent'' (VRef self) in
               if rel \<noteq> VNone then
                 (case rel of
                    VStr r \<Rightarrow> (None, set_attr (set_attr h2 self r kid) k ''rel'' rel)
                  | _ \<Rightarrow> (Some TypeError, h2))
               else (None, h2))
      | _ \<Rightarrow> (Some (InvalidKid kid), h))"

definition append_kid :: "heap \<Rightarrow> nat \<Rightarrow> pyval \<Rightarrow> pyval \<Rightarrow> (error + pyval) \<times> heap" where
  "append_kid h self kid rel =
     (case (if truthy h kid then attach h self kid rel else (None, h)) of
        (Some e, h1) \<Rightarrow> (Inl e, h1)
      | (None, h1) \<Rightarrow>
          if \<not> truthy h1 kid \<and> truthy h1 rel then (Inr VNone, h1)
          else (case list_append h1 self kid of (v, h2) \<Rightarrow> (Inr v, h2)))"

subsection \<open>\<open>__init__\<close> (lines 14-44)\<close>

fun append_all :: "heap \<Rightarrow> nat \<Rightarrow> pyval list \<Rightarrow> error option \<times> heap" where
  "append_all h self [] = (None, h)"
| "append_all h self (arg # args) =
     (case append_kid h self arg VNone of
        (Inl e, h1) \<Rightarrow> (Some e, h1)
      | (Inr v, h1) \<Rightarrow> append_all h1 self args)"

text \<open>
  \<open>Node(tokenizer, type, args)\<close> on the fresh object at address \<open>self\<close>. A true
  \<open>tokenizer\<close> argument that is no tokenizer object has no \<open>token\<close> attribute.
\<close>

definition Node_init :: "heap \<Rightarrow> nat \<Rightarrow> pyval \<Rightarrow> pyval \<Rightarrow> pyval list \<Rightarrow> (error + pyval) \<times> heap" where
  "Node_init h0 self tokenizer type args =
     (let h = h0(self := new_obj) in
      case (if truthy h tokenizer then
              (case tokenizer of
                 VTok tz \<Rightarrow>
                   (None,
                    set_attr
                      (case tz_token tz of
                         Some tk \<Rightarrow>
                           set_attr (set_attr (set_attr (set_attr h self ''type''
                               (if truthy h type then type
                                else (case tk_type tk of None \<Rightarrow> VNone | Some s \<Rightarrow> VStr s)))
                             self ''line'' (VInt (tk_line tk)))
                             self ''start'' (VInt (tk_start tk)))
                             self ''end'' (VInt (tk_end tk))
                       | None \<Rightarrow>
                           set_attr (set_attr (set_attr (set_attr h self ''type'' type)
                             self ''line'' (VInt (tz_line tz)))
                             self ''start'' VNone)
                             self ''end'' VNone)
                      self ''tokenizer'' tokenizer)
               | _ \<Rightarrow> (Some (AttributeError ''token''), h))
            else if truthy h type then (None, set_attr h self ''type'' type)
            else (None, h)) of
        (Some e, h1) \<Rightarrow> (Inl e, h1)
      | (None, h1) \<Rightarrow>
          (case append_all h1 self args of
             (Some e, h2) \<Rightarrow> (Inl e, h2)
           | (None, h2) \<Rightarrow> (Inr (VRef self), h2)))"

subsection \<open>Equality and \<open>list.index\<close>\<close>

text \<open>
  \<open>a == b\<close> as \<open>list.index\<close> and \<open>in\<close> test it: the same object is equal to itself
  without a comparison; otherwise the comparison is a call and needs recursion depth.
  \<open>Node\<close> inherits the equality of \<open>list\<close>, so two nodes are equal when their child
  sequences have the same length and equal entries, whatever their attributes. Tokenizer
  and comment objects compare by identity, which the model does not represent.
\<close>

fun same_object :: "pyval \<Rightarrow> pyval \<Rightarrow> bool" where
  "same_object (VRef r) (VRef s) = (r = s)"
| "same_object VNone VNone = True"
| "same_object (VBool a) (VBool b) = (a = b)"
| "same_object a b = False"

fun seq_of :: "heap \<Rightarrow> pyval \<Rightarrow> pyval list option" where
  "seq_of h (VList xs) = Some xs"
| "seq_of h (VRef r) = Some (items (h r))"
| "seq_of h v = None"

fun is_plain_object :: "pyval \<Rightarrow> bool" where
  "is_plain_object (VTok t) = True"
| "is_plain_object (VComment s m t) = True"
| "is_plain_object v = False"

definition scalar_eq :: "pyval \<Rightarrow> pyval \<Rightarrow> error + bool" where
  "scalar_eq a b =
     (case (as_num a, as_num b) of
        (Some i, Some j) \<Rightarrow> Inr (i = j)
      | _ \<Rightarrow>
        (case (a, b) of
           (VStr s, VStr t) \<Rightarrow> Inr (s = t)
         | (VNone, VNone) \<Rightarrow> Inr True
         | _ \<Rightarrow> if is_plain_object a \<and> is_plain_object b then Inl Unmodelled else Inr False))"

fun py_eq :: "nat \<Rightarrow> heap \<Rightarrow> pyval \<Rightarrow> pyval \<Rightarrow> error + bool"
  and list_eq :: "nat \<Rightarrow> heap \<Rightarrow> pyval list \<Rightarrow> pyval list \<Rightarrow> error + bool" where
  "py_eq 0 h a b = (if same_object a b then Inr True else Inl RecursionLimit)"
| "py_eq (Suc d) h a b =
     (if same_object a b then Inr True
      else case (seq_of h a, seq_of h b) of
          (Some xs, Some ys) \<Rightarrow>
            if length xs \<noteq> length ys then Inr False else list_eq d h xs ys
        | (None, None) \<Rightarrow> scalar_eq a b
        | _ \<Rightarrow> Inr False)"
| "list_eq d h (x # xs) (y # ys) =
     (case py_eq d h x y of
        Inl e \<Rightarrow> Inl e
      | Inr eq \<Rightarrow> if eq then list_eq d h xs ys else Inr False)"
| "list_eq d h xs ys = Inr True"

text \<open>\<open>xs.index(v)\<close>: the first position whose entry equals \<open>v\<close>, or \<open>ValueError\<close>.\<close>

fun list_index :: "nat \<Rightarrow> heap \<Rightarrow> pyval list \<Rightarrow> pyval \<Rightarrow> error + nat" where
  "list_index d h [] v = Inl ValueError"
| "list_index d h (x # xs) v =
     (case py_eq d h x v of
        Inl e \<Rightarrow> Inl e
      | Inr eq \<Rightarrow>
          if eq then Inr 0
          else (case list_index d h xs v of Inl e \<Rightarrow> Inl e | Inr i \<Rightarrow> Inr (Suc i)))"

text \<open>\<open>v in xs\<close>.\<close>

fun list_contains :: "nat \<Rightarrow> heap \<Rightarrow> pyval list \<Rightarrow> pyval \<Rightarrow> error + bool" where
  "list_contains d h [] v = Inr False"
| "list_contains d h (x # xs) v =
     (case py_eq d h v x of
        Inl e \<Rightarrow> Inl e
      | Inr eq \<Rightarrow> if eq then Inr True else list_contains d h xs v)"

subsection \<open>\<open>replace\<close> (lines 96-103)\<close>

text \<open>
  The first argument is the recursion depth left for the comparisons of \<open>index\<close>.
  \<open>repl.rel = kid.rel\<close> needs an object that takes attributes; setting an attribute of a
  tokenizer or comment object is outside the model.
\<close>

definition replace :: "nat \<Rightarrow> heap \<Rightarrow> nat \<Rightarrow> pyval \<Rightarrow> pyval \<Rightarrow> (error + pyval) \<times> heap" where
  "replace d h self kid repl =
     (case list_index d h (items (h self)) kid of
        Inl e \<Rightarrow> (Inl e, h)
      | Inr i \<Rightarrow>
          let h1 = h(self := (h self)\<lparr>items := (items (h self))[i := repl]\<rparr>) in
          if hasattr h1 kid ''rel'' then
            (case get_attr h1 kid ''rel'' of
               Inl e \<Rightarrow> (Inl e, h1)
             | Inr r \<Rightarrow>
                 (case repl of
                    VRef p \<Rightarrow>
                      let h2 = set_attr h1 p ''rel'' r in
                      (case get_attr h2 kid ''rel'' of
                         Inl e \<Rightarrow> (Inl e, h2)
                       | Inr r2 \<Rightarrow>
                           (case r2 of
                              VStr s \<Rightarrow> (Inr kid, set_attr h2 self s repl)
                            | _ \<Rightarrow> (Inl TypeError, h2)))
                  | VTok t \<Rightarrow> (Inl Unmodelled, h1)
                  | VComment s m t \<Rightarrow> (Inl Unmodelled, h1)
                  | _ \<Rightarrow> (Inl (AttributeError ''rel''), h1)))
          else (Inr kid, h1))"

subsection \<open>\<open>getSource\<close> and \<open>getFileName\<close> (lines 200-217)\<close>

text \<open>
  \<open>s[a:b]\<close> on text: a negative index counts from the end, and both indices are clamped
  to the text; a missing index is the start or the end of the text.
\<close>

definition clamp_index :: "nat \<Rightarrow> int \<Rightarrow> nat" where
  "clamp_index len i = (if i < 0 then nat (max 0 (i + int len)) else min (nat i) len)"

definition py_slice :: "string \<Rightarrow> int option \<Rightarrow> int option \<Rightarrow> string" where
  "py_slice s a b =
     (let i = (case a of None \<Rightarrow> 0 | Some x \<Rightarrow> clamp_index (length s) x);
          j = (case b of None \<Rightarrow> length s | Some y \<Rightarrow> clamp_index (length s) y)
      in take (j - i) (drop i s))"

text \<open>An index of a slice is an integer (a boolean is one); anything else is a \<open>TypeError\<close>.\<close>

definition as_index :: "pyval \<Rightarrow> error + int" where
  "as_index v = (case as_num v of None \<Rightarrow> Inl TypeError | Some i \<Rightarrow> Inr i)"

text \<open>\<open>self.tokenizer.source\<close> and \<open>self.tokenizer.filename\<close>.\<close>

definition tokenizer_source :: "pyval \<Rightarrow> error + string" where
  "tokenizer_source tz = (case tz of VTok t \<Rightarrow> Inr (tz_source t) | _ \<Rightarrow> Inl (AttributeError ''source''))"

definition tokenizer_filename :: "pyval \<Rightarrow> error + string" where
  "tokenizer_filename tz =
     (case tz of VTok t \<Rightarrow> Inr (tz_filename t) | _ \<Rightarrow> Inl (AttributeError ''filename''))"

text \<open>\<open>getattr(v, name, None)\<close> on a node.\<close>

definition getattr_default :: "heap \<Rightarrow> nat \<Rightarrow> string \<Rightarrow> pyval" where
  "getattr_default h r name = (case map_of (attrs (h r)) name of None \<Rightarrow> VNone | Some v \<Rightarrow> v)"

text \<open>
  Line 202 builds its message from \<open>node.type\<close>, and no name \<open>node\<close> is bound there:
  the \<open>raise\<close> statement fails with \<open>NameError\<close> before the exception exists.
\<close>

definition getSource :: "heap \<Rightarrow> nat \<Rightarrow> error + string" where
  "getSource h self =
     (case get_attr h (VRef self) ''tokenizer'' of
        Inl e \<Rightarrow> Inl e
      | Inr tz \<Rightarrow>
          if \<not> truthy h tz then Inl (NameError ''node'')
          else if getattr_default h self ''start'' \<noteq> VNone then
            (if getattr_default h self ''end'' \<noteq> VNone then
               (case tokenizer_source tz of Inl e \<Rightarrow> Inl e | Inr src \<Rightarrow>
                case as_index (getattr_default h self ''start'') of Inl e \<Rightarrow> Inl e | Inr a \<Rightarrow>
                case as_index (getattr_default h self ''end'') of Inl e \<Rightarrow> Inl e | Inr b \<Rightarrow>
                Inr (py_slice src (Some a) (Some b)))
             else
               (case tokenizer_source tz of Inl e \<Rightarrow> Inl e | Inr src \<Rightarrow>
                case as_index (getattr_default h self ''start'') of Inl e \<Rightarrow> Inl e | Inr a \<Rightarrow>
                Inr (py_slice src (Some a) None)))
          else if getattr_default h self ''end'' \<noteq> VNone then
            (case tokenizer_source tz of Inl e \<Rightarrow> Inl e | Inr src \<Rightarrow>
             case as_index (getattr_default h self ''end'') of Inl e \<Rightarrow> Inl e | Inr b \<Rightarrow>
             Inr (py_slice src None (Some b)))
          else
            (case tokenizer_source tz of Inl e \<Rightarrow> Inl e | Inr src \<Rightarrow>
             Inr (py_slice src None None)))"

text \<open>The offset an attribute value stands for: an integer, or none when unset.\<close>

fun offset_of :: "pyval \<Rightarrow> int option" where
  "offset_of (VInt i) = Some i"
| "offset_of v = None"

definition getFileName :: "heap \<Rightarrow> nat \<Rightarrow> error + string" where
  "getFileName h self =
     (case get_attr h (VRef self) ''tokenizer'' of
        Inl e \<Rightarrow> Inl e
      | Inr tz \<Rightarrow> tokenizer_filename tz)"

subsection \<open>Text conversions of the built-ins\<close>

definition digit_char :: "nat \<Rightarrow> char" where
  "digit_char n = ''0123456789abcdef'' ! n"

text \<open>\<open>str(n)\<close> for an integer: its decimal digits, with a sign when negative.\<close>

fun str_nat :: "nat \<Rightarrow> string" where
  "str_nat n = (if n < 10 then [digit_char n] else str_nat (n div 10) @ [digit_char (n mod 10)])"

declare str_nat.simps [simp del]

definition str_int :: "int \<Rightarrow> string" where
  "str_int i = (if i < 0 then CHR ''-'' # str_nat (nat (- i)) else str_nat (nat i))"

text \<open>
  \<open>json.dumps(s)\<close> for text: the text in double quotes, with the quote, the backslash and
  the control characters escaped, and every other character outside the printable ASCII
  range written as \<open>\u00XX\<close>.
\<close>

definition json_escape :: "char \<Rightarrow> string" where
  "json_escape c =
     (if c = CHR 0x22 then [CHR 0x5C, CHR 0x22]
      else if c = CHR 0x5C then [CHR 0x5C, CHR 0x5C]
      else if c = CHR 0x0A then [CHR 0x5C, CHR ''n'']
      else if c = CHR 0x0D then [CHR 0x5C, CHR ''r'']
      else if c = CHR 0x09 then [CHR 0x5C, CHR ''t'']
      else if c = CHR 0x08 then [CHR 0x5C, CHR ''b'']
      else if c = CHR 0x0C then [CHR 0x5C, CHR ''f'']
      else if (of_char c :: nat) < 32 \<or> 126 < (of_char c :: nat) then
        [CHR 0x5C, CHR ''u'', CHR ''0'', CHR ''0'',
         digit_char (of_char c div 16), digit_char (of_char c mod 16)]
      else [c])"

definition json_dumps :: "string \<Rightarrow> string" where
  "json_dumps s = CHR 0x22 # concat (map json_escape s) @ [CHR 0x22]"

text \<open>The conversion \<open>%s\<close> of the format operator, for the values it is used on.\<close>

fun fmt_s :: "pyval \<Rightarrow> error + string" where
  "fmt_s (VStr s) = Inr s"
| "fmt_s (VInt i) = Inr (str_int i)"
| "fmt_s (VBool b) = Inr (if b then ''True'' else ''False'')"
| "fmt_s VNone = Inr ''None''"
| "fmt_s v = Inl Unmodelled"

text \<open>\<open>sep.join(xs)\<close>: every entry must be text, or the call raises \<open>TypeError\<close> (\<open>None\<close> here).\<close>

fun text_of :: "pyval \<Rightarrow> string option" where
  "text_of (VStr s) = Some s"
| "text_of v = None"

fun join_text :: "string \<Rightarrow> pyval list \<Rightarrow> string option" where
  "join_text sep [] = Some []"
| "join_text sep [x] = text_of x"
| "join_text sep (x # y # ys) =
     (case text_of x of
        None \<Rightarrow> None
      | Some s \<Rightarrow> (case join_text sep (y # ys) of None \<Rightarrow> None | Some t \<Rightarrow> Some (s @ sep @ t)))"

fun join_strs :: "string \<Rightarrow> string list \<Rightarrow> string" where
  "join_strs sep [] = []"
| "join_strs sep [x] = x"
| "join_strs sep (x # y # ys) = x @ sep @ join_strs sep (y # ys)"

text \<open>\<open>len(v)\<close> and the entries a \<open>for\<close> loop over \<open>v\<close> visits.\<close>

fun py_len :: "heap \<Rightarrow> pyval \<Rightarrow> error + nat" where
  "py_len h (VList xs) = Inr (length xs)"
| "py_len h (VStr s) = Inr (length s)"
| "py_len h (VRef r) = Inr (length (items (h r)))"
| "py_len h (VTok t) = Inl Unmodelled"
| "py_len h (VComment s m t) = Inl Unmodelled"
| "py_len h v = Inl TypeError"

fun py_iter :: "heap \<Rightarrow> pyval \<Rightarrow> error + pyval list" where
  "py_iter h (VList xs) = Inr xs"
| "py_iter h (VStr s) = Inr (map (\<lambda>c. VStr [c]) s)"
| "py_iter h (VRef r) = Inr (items (h r))"
| "py_iter h (VTok t) = Inl Unmodelled"
| "py_iter h (VComment s m t) = Inl Unmodelled"
| "py_iter h v = Inl TypeError"

subsection \<open>Attribute enumeration\<close>

text \<open>
  \<open>dir(self)\<close> lists the attribute names in sorted order. The names it adds for the
  methods of the class are left out: their values are bound methods, which neither
  serializer looks at.
\<close>

definition dir_names :: "obj \<Rightarrow> string list" where
  "dir_names ob = sort (remdups (map fst (attrs ob)))"

text \<open>
  \<open>name not in (...) and name[0] != "_"\<close>: the second test indexes the name, so the empty
  name raises \<open>IndexError\<close>.
\<close>

definition name_selected :: "string list \<Rightarrow> string \<Rightarrow> error + bool" where
  "name_selected excluded name =
     (if name \<in> set excluded then Inr False
      else case name of [] \<Rightarrow> Inl IndexError | c # cs \<Rightarrow> Inr (c \<noteq> CHR ''_''))"

definition xml_excluded :: "string list" where
  "xml_excluded = [''type'', ''parent'', ''comments'', ''target'', ''rel'', ''start'', ''end'']"


subsection \<open>\<open>toXml\<close> (lines 107-171)\<close>

text \<open>What the loop of lines 114-140 does with one attribute value.\<close>

datatype xml_item = XSkip | XRelated pyval | XAttr string

text \<open>\<open>map(lambda node: node.value, value)\<close>.\<close>

fun node_values :: "heap \<Rightarrow> pyval list \<Rightarrow> error + pyval list" where
  "node_values h [] = Inr []"
| "node_values h (x # xs) =
     (case get_attr h x ''value'' of
        Inl e \<Rightarrow> Inl e
      | Inr v \<Rightarrow> (case node_values h xs of Inl e \<Rightarrow> Inl e | Inr vs \<Rightarrow> Inr (v # vs)))"

definition xml_pair :: "string \<Rightarrow> string \<Rightarrow> string" where
  "xml_pair name text = name @ ''='' @ json_dumps text"

definition xml_attr :: "heap \<Rightarrow> string \<Rightarrow> pyval \<Rightarrow> error + xml_item" where
  "xml_attr h name value =
     (case value of
        VRef r \<Rightarrow> Inr (if hasattr h value ''rel'' then XRelated value else XSkip)
      | VBool b \<Rightarrow> Inr (XAttr (xml_pair name (if b then ''true'' else ''false'')))
      | VInt i \<Rightarrow> Inr (XAttr (xml_pair name (str_int i)))
      | VStr s \<Rightarrow> Inr (XAttr (xml_pair name s))
      | VList xs \<Rightarrow>
          if length xs = 0 then Inr XSkip
          else (case (if name \<in> set [''varDecls'', ''funDecls''] then node_values h xs
                      else Inr xs) of
                  Inl e \<Rightarrow> Inl e
                | Inr ys \<Rightarrow>
                    (case join_text '','' ys of
                       None \<Rightarrow> Inl (InvalidAttrListChild name)
                     | Some s \<Rightarrow> Inr (XAttr (xml_pair name s))))
      | _ \<Rightarrow> Inr XSkip)"

fun xml_collect ::
  "heap \<Rightarrow> nat \<Rightarrow> string list \<Rightarrow> pyval list \<times> string list \<Rightarrow> error + pyval list \<times> string list"
where
  "xml_collect h self [] acc = Inr acc"
| "xml_collect h self (name # names) (related, col) =
     (case name_selected xml_excluded name of
        Inl e \<Rightarrow> Inl e
      | Inr sel \<Rightarrow>
          if \<not> sel then xml_collect h self names (related, col)
          else (case get_attr h (VRef self) name of
                  Inl e \<Rightarrow> Inl e
                | Inr value \<Rightarrow>
                    (case xml_attr h name value of
                       Inl e \<Rightarrow> Inl e
                     | Inr XSkip \<Rightarrow> xml_collect h self names (related, col)
                     | Inr (XRelated v) \<Rightarrow> xml_collect h self names (related @ [v], col)
                     | Inr (XAttr a) \<Rightarrow> xml_collect h self names (related, col @ [a]))))"

definition tabs :: "nat \<Rightarrow> string" where
  "tabs n = concat (replicate n ''  '')"

definition dq :: string where
  "dq = [CHR 0x22]"

text \<open>One comment line; a comment is read through \<open>style\<close>, \<open>mode\<close> and \<open>text\<close>.\<close>

definition comment_fields :: "heap \<Rightarrow> pyval \<Rightarrow> error + string \<times> string \<times> string" where
  "comment_fields h c =
     (case c of
        VComment style mode text \<Rightarrow> Inr (style, mode, text)
      | _ \<Rightarrow>
        (case get_attr h c ''style'' of Inl e \<Rightarrow> Inl e | Inr s \<Rightarrow>
         case get_attr h c ''mode'' of Inl e \<Rightarrow> Inl e | Inr m \<Rightarrow>
         case get_attr h c ''text'' of Inl e \<Rightarrow> Inl e | Inr t \<Rightarrow>
         case fmt_s s of Inl e \<Rightarrow> Inl e | Inr s' \<Rightarrow>
         case fmt_s m of Inl e \<Rightarrow> Inl e | Inr m' \<Rightarrow>
         case fmt_s t of Inl e \<Rightarrow> Inl e | Inr t' \<Rightarrow> Inr (s', m', t')))"

fun xml_comments :: "heap \<Rightarrow> string \<Rightarrow> string \<Rightarrow> pyval list \<Rightarrow> error + string" where
  "xml_comments h innerLead lineBreak [] = Inr []"
| "xml_comments h innerLead lineBreak (c # cs) =
     (case comment_fields h c of
        Inl e \<Rightarrow> Inl e
      | Inr (style, mode, text) \<Rightarrow>
          (case xml_comments h innerLead lineBreak cs of
             Inl e \<Rightarrow> Inl e
           | Inr rest \<Rightarrow>
               Inr (innerLead @ ''<comment style='' @ dq @ style @ dq @ '' mode='' @ dq @ mode
                    @ dq @ ''>'' @ text @ ''</comment>'' @ lineBreak @ rest)))"

text \<open>
  The loop over the children (lines 156-162). \<open>rec\<close> is the recursive call
  \<open>child.toXml(format, indent+1)\<close>, \<open>d\<close> the recursion depth left for the comparisons
  of \<open>child in relatedChildren\<close>, \<open>ty\<close> the value of \<open>self.type\<close>.
\<close>

fun xml_children ::
  "(nat \<Rightarrow> error + string) \<Rightarrow> nat \<Rightarrow> heap \<Rightarrow> pyval \<Rightarrow> string \<Rightarrow> string \<Rightarrow> pyval list \<Rightarrow>
    pyval list \<Rightarrow> error + string"
where
  "xml_children rec d h ty innerLead lineBreak related [] = Inr []"
| "xml_children rec d h ty innerLead lineBreak related (child # rest) =
     (case (if \<not> truthy h child then Inr (innerLead @ ''<none/>'' @ lineBreak)
            else if \<not> hasattr h child ''rel'' then
              (case child of VRef c \<Rightarrow> rec c | _ \<Rightarrow> Inl (AttributeError ''toXml''))
            else (case list_contains d h related child of
                    Inl e \<Rightarrow> Inl e
                  | Inr found \<Rightarrow>
                      if found then Inr []
                      else (case get_attr h child ''type'' of Inl e \<Rightarrow> Inl e | Inr ct \<Rightarrow>
                            case get_attr h child ''rel'' of Inl e \<Rightarrow> Inl e | Inr cr \<Rightarrow>
                            Inl (IrritatedNonRelated ct ty cr)))) of
        Inl e \<Rightarrow> Inl e
      | Inr s \<Rightarrow>
          (case xml_children rec d h ty innerLead lineBreak related rest of
             Inl e \<Rightarrow> Inl e
           | Inr t \<Rightarrow> Inr (s @ t)))"

text \<open>The loop over the related children (lines 164-167).\<close>

fun xml_related ::
  "(nat \<Rightarrow> error + string) \<Rightarrow> heap \<Rightarrow> string \<Rightarrow> string \<Rightarrow> pyval list \<Rightarrow> error + string"
where
  "xml_related rec h innerLead lineBreak [] = Inr []"
| "xml_related rec h innerLead lineBreak (child # rest) =
     (case get_attr h child ''rel'' of Inl e \<Rightarrow> Inl e | Inr r \<Rightarrow>
      case fmt_s r of Inl e \<Rightarrow> Inl e | Inr rname \<Rightarrow>
      case (case child of VRef c \<Rightarrow> rec c | _ \<Rightarrow> Inl (AttributeError ''toXml'')) of
        Inl e \<Rightarrow> Inl e
      | Inr s \<Rightarrow>
          (case xml_related rec h innerLead lineBreak rest of
             Inl e \<Rightarrow> Inl e
           | Inr t \<Rightarrow>
               Inr (innerLead @ ''<'' @ rname @ ''>'' @ lineBreak @ s
                    @ innerLead @ ''</'' @ rname @ ''>'' @ lineBreak @ t)))"

text \<open>
  The test of line 146, \<open>len(self) == 0 and len(relatedChildren) == 0 and (not comments
  or len(comments) == 0)\<close>, evaluated from left to right.
\<close>

definition xml_is_leaf :: "heap \<Rightarrow> nat \<Rightarrow> pyval list \<Rightarrow> pyval \<Rightarrow> error + bool" where
  "xml_is_leaf h self related comments =
     (if length (items (h self)) = 0 \<and> length related = 0 then
        (if \<not> truthy h comments then Inr True
         else (case py_len h comments of Inl e \<Rightarrow> Inl e | Inr n \<Rightarrow> Inr (n = 0)))
      else Inr False)"

text \<open>
  \<open>toXml(format, indent)\<close> with the default \<open>tab\<close>; the first argument is the recursion
  depth the call may use.
\<close>

fun toXml :: "nat \<Rightarrow> heap \<Rightarrow> nat \<Rightarrow> bool \<Rightarrow> nat \<Rightarrow> error + string" where
  "toXml 0 h self format indent = Inl RecursionLimit"
| "toXml (Suc d) h self format indent =
     (let lead = (if format then tabs indent else []);
          innerLead = (if format then tabs (indent + 1) else []);
          lineBreak = (if format then [CHR 0x0A] else [])
      in case xml_collect h self (dir_names (h self)) ([], []) of
        Inl e \<Rightarrow> Inl e
      | Inr (relatedChildren, attrsCollection) \<Rightarrow>
          let attrs = (if length attrsCollection > 0
                       then '' '' @ join_strs '' '' attrsCollection else []);
              comments = getattr_default h self ''comments''
          in case xml_is_leaf h self relatedChildren comments of Inl e \<Rightarrow> Inl e | Inr leaf \<Rightarrow>
             case get_attr h (VRef self) ''type'' of Inl e \<Rightarrow> Inl e | Inr ty \<Rightarrow>
             case fmt_s ty of Inl e \<Rightarrow> Inl e | Inr tyname \<Rightarrow>
             if leaf then Inr (lead @ ''<'' @ tyname @ attrs @ ''/>'' @ lineBreak)
             else
               case (if truthy h comments then
                       (case py_iter h comments of
                          Inl e \<Rightarrow> Inl e
                        | Inr cs \<Rightarrow> xml_comments h innerLead lineBreak cs)
                     else Inr []) of Inl e \<Rightarrow> Inl e | Inr ctext \<Rightarrow>
               case xml_children (\<lambda>c. toXml d h c format (indent + 1)) d h ty innerLead
                      lineBreak relatedChildren (items (h self)) of
                 Inl e \<Rightarrow> Inl e | Inr kids \<Rightarrow>
               case xml_related (\<lambda>c. toXml d h c format (indent + 2)) h innerLead lineBreak
                      relatedChildren of
                 Inl e \<Rightarrow> Inl e | Inr rels \<Rightarrow>
               Inr (lead @ ''<'' @ tyname @ attrs @ ''>'' @ lineBreak @ ctext @ kids @ rels
                    @ lead @ ''</'' @ tyname @ ''>'' @ lineBreak))"

subsection \<open>\<open>export\<close> (lines 175-191)\<close>






text \<open>
  \<open>toJson\<close> (lines 195-196) is \<open>json.dumps\<close> applied to the result of \<open>export\<close>; it adds
  nothing of the class and is not embedded.
\<close>

subsection \<open>Example trees\<close>

text \<open>
  A tokenizer over the text \<open>a+b;\<close> with no current token, and one whose current token
  spans the given offsets.
\<close>

definition tz_plain :: tokenizer where
  "tz_plain = \<lparr>tz_token = None, tz_line = 1, tz_source = ''a+b;'', tz_filename = ''t.js''\<rparr>"

definition tz_at :: "int \<Rightarrow> int \<Rightarrow> tokenizer" where
  "tz_at s e =
     \<lparr>tz_token = Some \<lparr>tk_type = Some ''number'', tk_line = 1, tk_start = s, tk_end = e\<rparr>,
      tz_line = 1, tz_source = ''a+b;'', tz_filename = ''t.js''\<rparr>"

text \<open>
  \<open>Node(tokenizer, "Block")\<close> with no current token at address 0 (its \<open>start\<close> and \<open>end\<close>
  are \<open>None\<close>), \<open>Node(tokenizer)\<close> on a token spanning 3 to 5 at address 1, and
  \<open>Node(None, "Block")\<close>, which has no \<open>start\<close> attribute at all, at address 2.
\<close>

definition heap_span :: heap where
  "heap_span =
     snd (Node_init
       (snd (Node_init
         (snd (Node_init empty_heap 0 (VTok tz_plain) (VStr ''Block'') []))
         1 (VTok (tz_at 3 5)) VNone []))
       2 VNone (VStr ''Block'') [])"

text \<open>
  Four nodes without source context: a \<open>BinaryExpr\<close> at address 0 and three \<open>Num\<close>
  leaves with \<open>value\<close> 1, 2 and 3; then the tree after \<open>append(n1, "left")\<close> and
  \<open>append(n2, "right")\<close> on the first, and the tree after an \<open>append(n1)\<close> with no
  relation.
\<close>

definition heap_nums :: heap where
  "heap_nums = empty_heap
     (0 := \<lparr>items = [], attrs = [(''type'', VStr ''BinaryExpr'')]\<rparr>,
      1 := \<lparr>items = [], attrs = [(''type'', VStr ''Num''), (''value'', VInt 1)]\<rparr>,
      2 := \<lparr>items = [], attrs = [(''type'', VStr ''Num''), (''value'', VInt 2)]\<rparr>,
      3 := \<lparr>items = [], attrs = [(''type'', VStr ''Num''), (''value'', VInt 3)]\<rparr>)"

definition heap_binexpr :: heap where
  "heap_binexpr =
     snd (append_kid (snd (append_kid heap_nums 0 (VRef 1) (VStr ''left''))) 0 (VRef 2)
       (VStr ''right''))"

definition heap_single :: heap where
  "heap_single = snd (append_kid heap_nums 0 (VRef 1) VNone)"

text \<open>
  A \<open>Script\<close> node with three list attributes: an empty \<open>funDecls\<close>, a \<open>varDecls\<close> of
  two \<open>Identifier\<close> nodes with the values \<open>x\<close> and \<open>y\<close>, and a list \<open>flags\<close> of two
  texts.
\<close>

definition heap_lists :: heap where
  "heap_lists = empty_heap
     (0 := \<lparr>items = [],
            attrs = [(''type'', VStr ''Script''), (''funDecls'', VList []),
                     (''varDecls'', VList [VRef 1, VRef 2]),
                     (''flags'', VList [VStr ''a'', VStr ''b''])]\<rparr>,
      1 := \<lparr>items = [], attrs = [(''type'', VStr ''Identifier''), (''value'', VStr ''x'')]\<rparr>,
      2 := \<lparr>items = [], attrs = [(''type'', VStr ''Identifier''), (''value'', VStr ''y'')]\<rparr>)"


subsection \<open>Child enumeration (lines 47-63)\<close>

text \<open>Example heaps used to evaluate the methods on concrete trees.\<close>

definition heap_array :: heap where
  "heap_array = empty_heap(0 := \<lparr>items = [], attrs = [(''type'', VStr ''ArrayLit'')]\<rparr>)"

definition heap_block :: heap where
  "heap_block = empty_heap
     (0 := \<lparr>items = [], attrs = [(''type'', VStr ''Block'')]\<rparr>,
      1 := \<lparr>items = [], attrs = [(''type'', VStr ''Num'')]\<rparr>)"

definition getUnrelatedChildren :: "heap \<Rightarrow> nat \<Rightarrow> pyval list" where
  "getUnrelatedChildren h self = filter (\<lambda>child. \<not> hasattr h child ''rel'') (items (h self))"

definition getChildrenLength :: "heap \<Rightarrow> nat \<Rightarrow> bool \<Rightarrow> nat" where
  "getChildrenLength h self flt =
     length (filter (\<lambda>child. \<not> flt \<or> \<not> hasattr h child ''rel'') (items (h self)))"

section \<open>Properties\<close>

subsection \<open>Helper facts about the heap\<close>

lemma items_set_attr: "items (set_attr h r name v a) = items (h a)"
  by (simp add: set_attr_def)

lemma truthy_set_attr: "truthy (set_attr h r name v) x = truthy h x"
  by (cases x) (simp_all add: Node_nonzero_def)

lemma map_of_set_attr:
  "map_of (attrs (set_attr h r name v a)) n =
     (if a = r \<and> n = name then Some v else map_of (attrs (h a)) n)"
  by (simp add: set_attr_def update_conv')

lemma truthy_heap_indep: "truthy h x = truthy h' x"
  by (cases x) (simp_all add: Node_nonzero_def)

lemma attrs_list_append: "attrs (snd (list_append h self kid) a) = attrs (h a)"
  by (simp add: list_append_def)

subsection \<open>What \<open>append\<close> does to the child sequence\<close>

lemma items_expand_span: "expand_span h self k = (eo, h1) \<Longrightarrow> items (h1 a) = items (h a)"
proof -
  have "items (snd (expand_span h self k) a) = items (h a)"
    by (simp add: expand_span_def Let_def items_set_attr split: sum.splits)
  then show "expand_span h self k = (eo, h1) \<Longrightarrow> items (h1 a) = items (h a)"
    by simp
qed

lemma items_attach: "items (snd (attach h self kid rel) a) = items (h a)"
  by (auto simp add: attach_def Let_def items_set_attr dest: items_expand_span
      split: pyval.splits option.splits prod.splits if_splits)

lemma attach_parent:
  "attach h self (VRef k) rel = (None, h1) \<Longrightarrow>
     map_of (attrs (h1 k)) ''parent'' = Some (VRef self)"
  by (auto simp add: attach_def Let_def map_of_set_attr
      split: pyval.splits option.splits prod.splits if_splits)

lemma append_kid_success:
  assumes "fst (append_kid h self kid rel) = Inr v"
  shows "v = VNone"
    and "items (snd (append_kid h self kid rel) self) =
       (if \<not> truthy h kid \<and> truthy h rel then items (h self) else items (h self) @ [kid])"
proof -
  have "v = VNone \<and>
     items (snd (append_kid h self kid rel) self) =
       (if \<not> truthy h kid \<and> truthy h rel then items (h self) else items (h self) @ [kid])"
  proof (cases "truthy h kid")
    case True
    obtain eo h1 where a: "attach h self kid rel = (eo, h1)"
      by (cases "attach h self kid rel")
    from items_attach [of h self kid rel self] a
    have i: "items (h1 self) = items (h self)" by simp
    from True truthy_heap_indep [of h1 kid h] have t1: "truthy h1 kid" by simp
    from assms True a t1 i show ?thesis
      by (cases eo) (auto simp add: append_kid_def list_append_def)
  next
    case False
    with assms show ?thesis
      by (auto simp add: append_kid_def list_append_def split: if_splits)
  qed
  then show "v = VNone"
    and "items (snd (append_kid h self kid rel) self) =
       (if \<not> truthy h kid \<and> truthy h rel then items (h self) else items (h self) @ [kid])"
    by simp_all
qed

subsection \<open>Appending an empty slot under a relation name\<close>

text \<open>
  Claim C3, as amended. For every node \<open>self\<close>, \<open>append(kid, rel)\<close> with an empty slot
  (any false value) and a relation name that is not the empty text is a no-op: it
  returns \<open>None\<close> and leaves the heap as it was, so the child sequence (its length and
  its contents) and the relation attributes of the node are unchanged.
\<close>

theorem append_empty_slot_noop:
  "\<not> truthy h kid \<Longrightarrow> r \<noteq> [] \<Longrightarrow> append_kid h self kid (VStr r) = (Inr VNone, h)"
  by (simp add: append_kid_def)

theorem append_empty_slot_noop_witness:
  "\<not> truthy heap_array VNone \<and> ''elem'' \<noteq> [] \<and>
   append_kid heap_array 0 VNone (VStr ''elem'') = (Inr VNone, heap_array)"
  using append_empty_slot_noop [of heap_array VNone "''elem''" 0] by simp

text \<open>
  The claim as the specification states it, for every relation name, fails at the empty
  name: the guard \<open>if not kid and rel\<close> tests the name's truth value, so
  \<open>append(None, "")\<close> appends the empty slot.
\<close>

theorem append_empty_slot_empty_name_counterexample:
  "length (items (heap_array 0)) = 0 \<and>
   length (items (snd (append_kid heap_array 0 VNone (VStr '''')) 0)) = 1 \<and>
   items (snd (append_kid heap_array 0 VNone (VStr '''')) 0) = [VNone]"
  by (simp add: append_kid_def list_append_def heap_array_def empty_heap_def new_obj_def)

subsection \<open>The value \<open>append\<close> returns\<close>

text \<open>
  Claim C6, as amended. Every call of \<open>append\<close> that does not raise returns \<open>None\<close>,
  the value of \<open>list.append\<close> (or of the bare \<open>return\<close>), never a reference to the
  child sequence; the child sequence is the old one extended by the child or empty slot,
  except in the no-op case of a false child with a true relation argument.
\<close>

theorem append_returns_none:
  "fst (append_kid h self kid rel) = Inr v \<Longrightarrow>
     v = VNone \<and>
     items (snd (append_kid h self kid rel) self) =
       (if \<not> truthy h kid \<and> truthy h rel then items (h self) else items (h self) @ [kid])"
  using append_kid_success [of h self kid rel v] by simp

theorem append_returns_none_witness:
  "fst (append_kid heap_block 0 (VRef 1) VNone) = Inr VNone \<and>
   items (snd (append_kid heap_block 0 (VRef 1) VNone) 0) = [VRef 1]"
proof -
  have ok: "fst (append_kid heap_block 0 (VRef 1) VNone) = Inr VNone"
    by (simp add: append_kid_def attach_def heap_block_def empty_heap_def new_obj_def
        Node_nonzero_def list_append_def set_attr_def Let_def)
  have e: "items (heap_block 0) = []"
    by (simp add: heap_block_def)
  from append_returns_none [OF ok] ok e show ?thesis
    by (simp add: Node_nonzero_def)
qed

text \<open>
  The claim as stated fails: the call returns \<open>None\<close>, not the node (the node is its own
  child sequence, at address 0 here).
\<close>

theorem append_returns_sequence_counterexample:
  "fst (append_kid heap_block 0 (VRef 1) VNone) \<noteq> Inr (VRef 0)"
  by (simp add: append_kid_def attach_def heap_block_def empty_heap_def new_obj_def
      Node_nonzero_def list_append_def set_attr_def Let_def)

subsection \<open>A node is always true\<close>

text \<open>
  Claim C10. Every node converts to true, whatever its children (also with none); so a
  value that converts to false is never a node, and \<open>append\<close> of a node, when it does not
  raise, takes the path of a real child: the node is appended to the sequence and its
  \<open>parent\<close> is set, also when a relation name is given.
\<close>

theorem node_is_never_empty_slot:
  "truthy h (VRef k) \<and>
   (\<not> truthy h v \<longrightarrow> v \<notin> range VRef) \<and>
   (fst (append_kid h self (VRef k) rel) = Inr w \<longrightarrow>
      items (snd (append_kid h self (VRef k) rel) self) = items (h self) @ [VRef k] \<and>
      get_attr (snd (append_kid h self (VRef k) rel)) (VRef k) ''parent'' = Inr (VRef self))"
proof (intro conjI impI)
  show t: "truthy h (VRef k)" by (simp add: Node_nonzero_def)
  show "v \<notin> range VRef" if "\<not> truthy h v"
    using that by (auto simp add: Node_nonzero_def)
  assume ok: "fst (append_kid h self (VRef k) rel) = Inr w"
  from append_kid_success(2) [OF ok] t
  show "items (snd (append_kid h self (VRef k) rel) self) = items (h self) @ [VRef k]"
    by simp
  obtain eo h1 where a: "attach h self (VRef k) rel = (eo, h1)"
    by (cases "attach h self (VRef k) rel")
  with ok t have eo: "eo = None"
    by (cases eo) (simp_all add: append_kid_def)
  have t1: "truthy h1 (VRef k)" by (simp add: Node_nonzero_def)
  from a eo t t1
  have s: "snd (append_kid h self (VRef k) rel) = snd (list_append h1 self (VRef k))"
    by (simp add: append_kid_def split: prod.splits)
  from attach_parent [of h self k rel h1] a eo
  show "get_attr (snd (append_kid h self (VRef k) rel)) (VRef k) ''parent'' = Inr (VRef self)"
    by (simp add: s attrs_list_append)
qed

theorem node_is_never_empty_slot_witness:
  "items (heap_block 1) = [] \<and> truthy heap_block (VRef 1) \<and>
   \<not> truthy heap_block (VInt 0) \<and> VInt 0 \<notin> range VRef \<and>
   fst (append_kid heap_block 0 (VRef 1) (VStr ''body'')) = Inr VNone \<and>
   items (snd (append_kid heap_block 0 (VRef 1) (VStr ''body'')) 0) = [VRef 1] \<and>
   get_attr (snd (append_kid heap_block 0 (VRef 1) (VStr ''body''))) (VRef 1) ''parent'' =
     Inr (VRef 0)"
proof -
  have ok: "fst (append_kid heap_block 0 (VRef 1) (VStr ''body'')) = Inr VNone"
    by (simp add: append_kid_def attach_def heap_block_def empty_heap_def new_obj_def
        Node_nonzero_def list_append_def set_attr_def Let_def)
  have e: "items (heap_block 0) = [] \<and> items (heap_block 1) = []"
    by (simp add: heap_block_def empty_heap_def)
  from node_is_never_empty_slot [of heap_block 1 "VInt 0" 0 "VStr ''body''" VNone] ok e
  show ?thesis by simp
qed

subsection \<open>The example trees, evaluated\<close>

lemma heap_binexpr_at:
  "heap_binexpr 0 = \<lparr>items = [VRef 1, VRef 2],
     attrs = [(''type'', VStr ''BinaryExpr''), (''left'', VRef 1), (''right'', VRef 2)]\<rparr>"
  "heap_binexpr 1 = \<lparr>items = [],
     attrs = [(''type'', VStr ''Num''), (''value'', VInt 1), (''parent'', VRef 0),
       (''rel'', VStr ''left'')]\<rparr>"
  "heap_binexpr 2 = \<lparr>items = [],
     attrs = [(''type'', VStr ''Num''), (''value'', VInt 2), (''parent'', VRef 0),
       (''rel'', VStr ''right'')]\<rparr>"
  "heap_binexpr 3 = \<lparr>items = [], attrs = [(''type'', VStr ''Num''), (''value'', VInt 3)]\<rparr>"
  by (simp_all add: heap_binexpr_def heap_nums_def append_kid_def attach_def empty_heap_def
      new_obj_def Node_nonzero_def list_append_def set_attr_def Let_def)

lemmas heap_binexpr_eval = heap_binexpr_at heap_binexpr_at(2) [unfolded One_nat_def]

lemma heap_single_at:
  "heap_single 0 = \<lparr>items = [VRef 1], attrs = [(''type'', VStr ''BinaryExpr'')]\<rparr>"
  "heap_single 1 = \<lparr>items = [],
     attrs = [(''type'', VStr ''Num''), (''value'', VInt 1), (''parent'', VRef 0)]\<rparr>"
  "heap_single 2 = \<lparr>items = [], attrs = [(''type'', VStr ''Num''), (''value'', VInt 2)]\<rparr>"
  "heap_single 3 = \<lparr>items = [], attrs = [(''type'', VStr ''Num''), (''value'', VInt 3)]\<rparr>"
  by (simp_all add: heap_single_def heap_nums_def append_kid_def attach_def empty_heap_def
      new_obj_def Node_nonzero_def list_append_def set_attr_def Let_def)

lemmas heap_single_eval = heap_single_at heap_single_at(2) [unfolded One_nat_def]

lemma heap_span_at:
  "heap_span 0 = \<lparr>items = [],
     attrs = [(''type'', VStr ''Block''), (''line'', VInt 1), (''start'', VNone),
       (''end'', VNone), (''tokenizer'', VTok tz_plain)]\<rparr>"
  "heap_span 1 = \<lparr>items = [],
     attrs = [(''type'', VStr ''number''), (''line'', VInt 1), (''start'', VInt 3),
       (''end'', VInt 5), (''tokenizer'', VTok (tz_at 3 5))]\<rparr>"
  "heap_span 2 = \<lparr>items = [], attrs = [(''type'', VStr ''Block'')]\<rparr>"
  by (simp_all add: heap_span_def Node_init_def empty_heap_def new_obj_def set_attr_def
      Node_nonzero_def Let_def tz_plain_def tz_at_def)

lemmas heap_span_eval = heap_span_at heap_span_at(2) [unfolded One_nat_def]

subsection \<open>The span of a node after \<open>append\<close>\<close>

text \<open>
  Claim C1 says that after any sequence of \<open>append\<close> calls the start and end of a node,
  when both are set, are the minimal span covering the node and its span-bearing
  children, and that a node whose start and end are unset adopts those of a span-bearing
  child. The code does not do the second for the start: line 75 tests
  \<open>kid.start < self.start\<close>, and in Python 2 no integer is smaller than \<open>None\<close>, so an
  unset start stays unset, while line 78 (\<open>self.end < kid.end\<close>) does adopt the end.
  Evaluated on the node of address 0 (start and end \<open>None\<close>) and the child of address 1
  (span 3 to 5): the append succeeds, the end becomes 5, the start is still \<open>None\<close>. On
  the node of address 2, built without source context, there is no \<open>start\<close> attribute
  and the same append raises \<open>AttributeError\<close>.
\<close>

theorem append_leaves_unset_start:
  "get_attr heap_span (VRef 0) ''start'' = Inr VNone \<and>
   get_attr heap_span (VRef 0) ''end'' = Inr VNone \<and>
   get_attr heap_span (VRef 1) ''start'' = Inr (VInt 3) \<and>
   get_attr heap_span (VRef 1) ''end'' = Inr (VInt 5) \<and>
   fst (append_kid heap_span 0 (VRef 1) VNone) = Inr VNone \<and>
   get_attr (snd (append_kid heap_span 0 (VRef 1) VNone)) (VRef 0) ''start'' = Inr VNone \<and>
   get_attr (snd (append_kid heap_span 0 (VRef 1) VNone)) (VRef 0) ''end'' = Inr (VInt 5) \<and>
   append_kid heap_span 2 (VRef 1) VNone = (Inl (AttributeError ''start''), heap_span)"
  by (simp add: heap_span_eval append_kid_def attach_def expand_span_def Node_nonzero_def
      list_append_def set_attr_def Let_def py_lt_def)

subsection \<open>\<open>replace\<close>\<close>





text \<open>
  When \<open>index\<close> finds no entry equal to \<open>kid\<close>, \<open>replace\<close> raises its \<open>ValueError\<close>
  (or the error of the comparison) and changes nothing.
\<close>

lemma replace_not_found:
  "list_index d h (items (h self)) kid = Inl e \<Longrightarrow> replace d h self kid repl = (Inl e, h)"
  by (simp add: replace_def)

lemma list_index_none_equal:
  "\<forall>x\<in>set xs. py_eq d h x v = Inr False \<Longrightarrow> list_index d h xs v = Inl ValueError"
  by (induction xs) simp_all

text \<open>
  Claim C8 says that \<open>replace(old, new)\<close> fails and leaves the node unchanged whenever
  \<open>old\<close> is not, by identity, among the children. The code looks \<open>old\<close> up with
  \<open>self.index(kid)\<close>, which compares with \<open>==\<close>, and a \<open>Node\<close> is a list: any two nodes
  with equal child sequences are equal, so all leaves are. On the node of address 0 with
  the single child \<open>n1\<close>, \<open>replace(n2, n3)\<close> for the leaf \<open>n2\<close>, which is no child of the
  node, raises nothing: it puts \<open>n3\<close> in the place of \<open>n1\<close> and returns \<open>n2\<close>.
\<close>

theorem replace_equal_leaf:
  "VRef 2 \<notin> set (items (heap_single 0)) \<and>
   items (heap_single 0) = [VRef 1] \<and>
   fst (replace (Suc d) heap_single 0 (VRef 2) (VRef 3)) = Inr (VRef 2) \<and>
   items (snd (replace (Suc d) heap_single 0 (VRef 2) (VRef 3)) 0) = [VRef 3]"
  by (simp add: heap_single_eval replace_def Let_def)

subsection \<open>\<open>getSource\<close>\<close>

text \<open>
  With a tokenizer and integer or unset offsets, \<open>getSource\<close> returns the slice of the
  source text from start to end, an unset start standing for the start of the text and
  an unset end for its end.
\<close>

lemma getSource_slice:
  assumes "get_attr h (VRef self) ''tokenizer'' = Inr (VTok tz)"
    and "getattr_default h self ''start'' \<in> range VInt \<union> {VNone}"
    and "getattr_default h self ''end'' \<in> range VInt \<union> {VNone}"
  shows "getSource h self =
    Inr (py_slice (tz_source tz) (offset_of (getattr_default h self ''start''))
      (offset_of (getattr_default h self ''end'')))"
  using assms
  by (auto simp add: getSource_def tokenizer_source_def as_index_def)

lemma getSource_scenario:
  "getSource (set_attr (set_attr heap_span 0 ''start'' (VInt 0)) 0 ''end'' (VInt 3)) 0 =
     Inr ''a+b''"
  by (simp add: heap_span_eval getSource_def set_attr_def getattr_default_def as_index_def
      tokenizer_source_def py_slice_def clamp_index_def tz_plain_def)

text \<open>
  Claim C4 says that \<open>getSource\<close> on a node with no source context fails with the error
  for a missing source context, which line 202 means to raise
  (\<open>Exception("Could not find source for node ...")\<close>). That exception is never raised.
  A node built without tokenizer has no \<open>tokenizer\<close> attribute, and line 201 reads
  \<open>self.tokenizer\<close>: the call fails with \<open>AttributeError\<close>. When the attribute is there
  and false, line 202 evaluates \<open>node.type\<close> for the message, and \<open>node\<close> is not defined:
  the call fails with \<open>NameError\<close>.
\<close>

theorem getSource_without_tokenizer:
  "get_attr heap_span (VRef 2) ''tokenizer'' = Inl (AttributeError ''tokenizer'') \<and>
   getSource heap_span 2 = Inl (AttributeError ''tokenizer'') \<and>
   getSource (set_attr heap_span 2 ''tokenizer'' VNone) 2 = Inl (NameError ''node'')"
  by (simp add: heap_span_eval getSource_def set_attr_def)

subsection \<open>The tagged-tree text of the \<open>BinaryExpr\<close> scenario\<close>

lemmas xml_eval = dir_names_def name_selected_def xml_excluded_def xml_attr_def
  xml_pair_def json_dumps_def json_escape_def str_int_def str_nat.simps digit_char_def
  xml_is_leaf_def getattr_default_def dq_def Let_def Node_nonzero_def tabs_def

text \<open>
  The four nodes of \<open>heap_nums\<close> are what the constructor calls \<open>Node(None, "BinaryExpr")\<close>
  and three times \<open>Node(None, "Num")\<close>, each followed by \<open>node.value = ...\<close>, leave behind.
\<close>

lemma heap_nums_constructed:
  "heap_nums =
     set_attr (snd (Node_init
       (set_attr (snd (Node_init
         (set_attr (snd (Node_init
           (snd (Node_init empty_heap 0 VNone (VStr ''BinaryExpr'') []))
           1 VNone (VStr ''Num'') [])) 1 ''value'' (VInt 1))
         2 VNone (VStr ''Num'') [])) 2 ''value'' (VInt 2))
       3 VNone (VStr ''Num'') [])) 3 ''value'' (VInt 3)"
  by (rule ext)
    (simp add: heap_nums_def Node_init_def empty_heap_def new_obj_def set_attr_def Let_def)

text \<open>
  Claim C5. On a \<open>BinaryExpr\<close> node, \<open>append(n1, "left")\<close> and \<open>append(n2, "right")\<close> for
  the \<open>Num\<close> nodes with \<open>value\<close> 1 and 2 both succeed and leave: two children, \<open>n1\<close> and
  \<open>n2\<close> in this order; the relation attributes \<open>left\<close> and \<open>right\<close> referring to \<open>n1\<close> and
  \<open>n2\<close> and no other attribute but \<open>type\<close>; the markers \<open>left\<close> and \<open>right\<close> on the
  children; no unrelated child; and, with any recursion depth of two or more, the
  unformatted tagged-tree text
  \<open><BinaryExpr><left><Num value="1"/></left><right><Num value="2"/></right></BinaryExpr>\<close>.
\<close>

theorem binary_expr_scenario:
  "fst (append_kid heap_nums 0 (VRef 1) (VStr ''left'')) = Inr VNone \<and>
   fst (append_kid (snd (append_kid heap_nums 0 (VRef 1) (VStr ''left''))) 0 (VRef 2)
     (VStr ''right'')) = Inr VNone \<and>
   items (heap_binexpr 0) = [VRef 1, VRef 2] \<and>
   length (items (heap_binexpr 0)) = 2 \<and>
   attrs (heap_binexpr 0) =
     [(''type'', VStr ''BinaryExpr''), (''left'', VRef 1), (''right'', VRef 2)] \<and>
   get_attr heap_binexpr (VRef 1) ''rel'' = Inr (VStr ''left'') \<and>
   get_attr heap_binexpr (VRef 2) ''rel'' = Inr (VStr ''right'') \<and>
   length (getUnrelatedChildren heap_binexpr 0) = 0 \<and>
   toXml (Suc (Suc d)) heap_binexpr 0 False 0 =
     Inr (''<BinaryExpr><left><Num value='' @ dq @ ''1'' @ dq @ ''/></left><right><Num value=''
          @ dq @ ''2'' @ dq @ ''/></right></BinaryExpr>'')"
proof -
  have a: "fst (append_kid heap_nums 0 (VRef 1) (VStr ''left'')) = Inr VNone"
    by (simp add: heap_nums_def append_kid_def attach_def empty_heap_def
        new_obj_def Node_nonzero_def list_append_def set_attr_def Let_def)
  have b: "fst (append_kid (snd (append_kid heap_nums 0 (VRef 1) (VStr ''left''))) 0 (VRef 2)
     (VStr ''right'')) = Inr VNone"
    by (simp add: heap_nums_def append_kid_def attach_def empty_heap_def
        new_obj_def Node_nonzero_def list_append_def set_attr_def Let_def)
  have c: "length (getUnrelatedChildren heap_binexpr 0) = 0"
    by (simp add: getUnrelatedChildren_def heap_binexpr_eval)
  have x: "toXml (Suc (Suc d)) heap_binexpr 0 False 0 =
     Inr (''<BinaryExpr><left><Num value='' @ dq @ ''1'' @ dq @ ''/></left><right><Num value=''
          @ dq @ ''2'' @ dq @ ''/></right></BinaryExpr>'')"
    by (simp add: heap_binexpr_eval xml_eval)
  from a b c x show ?thesis
    by (simp add: heap_binexpr_eval)
qed

theorem binary_expr_scenario_witness:
  "toXml 2 heap_binexpr 0 False 0 =
     Inr (''<BinaryExpr><left><Num value='' @ dq @ ''1'' @ dq @ ''/></left><right><Num value=''
          @ dq @ ''2'' @ dq @ ''/></right></BinaryExpr>'')"
  using binary_expr_scenario [of 0] by (simp add: numeral_2_eq_2)

subsection \<open>List-valued attributes in the tagged-tree text\<close>







lemma heap_lists_at:
  "heap_lists 0 = \<lparr>items = [],
            attrs = [(''type'', VStr ''Script''), (''funDecls'', VList []),
                     (''varDecls'', VList [VRef 1, VRef 2]),
                     (''flags'', VList [VStr ''a'', VStr ''b''])]\<rparr>"
  "heap_lists 1 = \<lparr>items = [], attrs = [(''type'', VStr ''Identifier''), (''value'', VStr ''x'')]\<rparr>"
  "heap_lists 2 = \<lparr>items = [], attrs = [(''type'', VStr ''Identifier''), (''value'', VStr ''y'')]\<rparr>"
  by (simp_all add: heap_lists_def empty_heap_def)

lemmas heap_lists_eval = heap_lists_at heap_lists_at(2) [unfolded One_nat_def]


text \<open>
  The same through \<open>toXml\<close> itself: the empty \<open>funDecls\<close> leaves no trace in the text, the
  two other lists are joined, and a list with an integer entry makes the call fail.
\<close>

lemma toXml_list_attributes:
  "toXml (Suc d) heap_lists 0 False 0 =
     Inr (''<Script flags='' @ dq @ ''a,b'' @ dq @ '' varDecls='' @ dq @ ''x,y'' @ dq @ ''/>'')"
  "toXml (Suc d) (set_attr heap_lists 0 ''flags'' (VList [VStr ''a'', VInt 1])) 0 False 0 =
     Inl (InvalidAttrListChild ''flags'')"
  by (simp_all add: heap_lists_eval xml_eval set_attr_def)

subsection \<open>The exported record\<close>



















end
